theory Spec2Isabelle
  imports Complex_Main "HOL-Library.AList" "HOL-Library.Char_ord" "HOL-Library.List_Lexorder"
    "HOL-Library.Multiset"
begin

section \<open>JavaScript values used by the search result pipeline\<close>

text \<open>
  Numbers are modelled as rationals: every arithmetic operation of the modelled code
  (sums of integers, one division by 155, one product with 0.3, products with 1000) is
  exact on them, and \<open>Math.round\<close> is rounding half up. Floating-point rounding error,
  NaN and the infinities are outside the model. Strings are byte strings; only the ASCII
  letters have a lower-case form and only the ASCII white space is trimmed.
\<close>

type_synonym number = rat

definition Math_round :: "number \<Rightarrow> int" where
  "Math_round x = \<lfloor>x + 1 / 2\<rfloor>"

definition toLowerChar :: "char \<Rightarrow> char" where
  "toLowerChar c =
     (let n = (of_char c :: nat) in if 65 \<le> n \<and> n \<le> 90 then char_of (n + 32) else c)"

definition toLowerCase :: "string \<Rightarrow> string" where
  "toLowerCase s = map toLowerChar s"

definition isSpace :: "char \<Rightarrow> bool" where
  "isSpace c = ((of_char c :: nat) \<in> {9, 10, 11, 12, 13, 32})"

definition trim :: "string \<Rightarrow> string" where
  "trim s = rev (dropWhile isSpace (rev (dropWhile isSpace s)))"

fun startsWith :: "string \<Rightarrow> string \<Rightarrow> bool" where
  "startsWith s [] = True"
| "startsWith [] (p # ps) = False"
| "startsWith (c # cs) (p # ps) = (c = p \<and> startsWith cs ps)"

fun str_includes :: "string \<Rightarrow> string \<Rightarrow> bool" where
  "str_includes [] sub = (sub = [])"
| "str_includes (c # cs) sub = (startsWith (c # cs) sub \<or> str_includes cs sub)"

text \<open>Truthiness of an optional string, of a string and of a number.\<close>

definition truthyStr :: "string \<Rightarrow> bool" where
  "truthyStr s = (s \<noteq> [])"

definition truthyOpt :: "string option \<Rightarrow> bool" where
  "truthyOpt v = (case v of None \<Rightarrow> False | Some s \<Rightarrow> s \<noteq> [])"

definition truthyNum :: "number \<Rightarrow> bool" where
  "truthyNum x = (x \<noteq> 0)"

subsection \<open>Printing numbers and joining strings\<close>

text \<open>The decimal digits of a non-negative integer.\<close>

function decimal :: "int \<Rightarrow> string" where
  "decimal n =
     (if n < 10 then [char_of (48 + nat n)]
      else decimal (n div 10) @ [char_of (48 + nat (n mod 10))])"
  by pat_completeness auto
termination
  by (relation "measure nat") auto

declare decimal.simps [simp del]

definition natToString :: "nat \<Rightarrow> string" where
  "natToString n = decimal (int n)"

definition intToString :: "int \<Rightarrow> string" where
  "intToString i = (if i < 0 then CHR ''-'' # decimal (- i) else decimal i)"



fun join :: "string \<Rightarrow> string list \<Rightarrow> string" where
  "join sep [] = []"
| "join sep [x] = x"
| "join sep (x # y # ys) = x @ sep @ join sep (y # ys)"

text \<open>
  \<open>x.toFixed(1)\<close>: the number of tenths nearest to \<open>|x|\<close>, the larger one on a
  tie, printed with one decimal and the sign of \<open>x\<close>.
\<close>

definition toFixed1 :: "number \<Rightarrow> string" where
  "toFixed1 x =
     (let n = \<lfloor>\<bar>x\<bar> * 10 + 1 / 2\<rfloor>
      in (if x < 0 then ''-'' else []) @ decimal (n div 10) @ ''.''
         @ [char_of (48 + nat (n mod 10))])"

definition isDigit :: "char \<Rightarrow> bool" where
  "isDigit c = (48 \<le> (of_char c :: nat) \<and> (of_char c :: nat) \<le> 57)"

definition isLetter :: "char \<Rightarrow> bool" where
  "isLetter c = (let n = (of_char c :: nat) in (65 \<le> n \<and> n \<le> 90) \<or> (97 \<le> n \<and> n \<le> 122))"

definition hexDigit :: "nat \<Rightarrow> char" where
  "hexDigit n = (if n < 10 then char_of (48 + n) else char_of (55 + n))"

text \<open>
  \<open>encodeURIComponent\<close> on a byte string: letters, digits and \<open>- _ . ! ~ * ' ( )\<close>
  stay, every other byte becomes \<open>%XX\<close>.
\<close>

definition encodeURIComponent :: "string \<Rightarrow> string" where
  "encodeURIComponent s =
     concat (map (\<lambda>c. if isLetter c \<or> isDigit c \<or> c \<in> set ''-_.!~*'' \<or> c \<in> set [CHR 0x27, CHR ''('', CHR '')'']
                       then [c]
                       else [CHR ''%'', hexDigit ((of_char c :: nat) div 16),
                             hexDigit ((of_char c :: nat) mod 16)]) s)"

text \<open>
  A property read \<open>table[key]\<close> on an object literal: an own property, a property
  inherited from \<open>Object.prototype\<close> (a function or an object, never a string, a number
  or an array), or \<open>undefined\<close>.
\<close>

datatype 'a js_prop = Undefined | Own 'a | Inherited

definition objectPrototypeKeys :: "string list" where
  "objectPrototypeKeys =
     [''constructor'', ''__defineGetter__'', ''__defineSetter__'', ''hasOwnProperty'',
      ''__lookupGetter__'', ''__lookupSetter__'', ''isPrototypeOf'', ''propertyIsEnumerable'',
      ''toString'', ''valueOf'', ''__proto__'', ''toLocaleString'']"

definition tableGet :: "(string \<times> 'a) list \<Rightarrow> string \<Rightarrow> 'a js_prop" where
  "tableGet table k =
     (case map_of table k of
        Some v \<Rightarrow> Own v
      | None \<Rightarrow> if k \<in> set objectPrototypeKeys then Inherited else Undefined)"

text \<open>
  \<open>xs[Math.floor(r * xs.length)]\<close> for a draw \<open>r\<close> of \<open>Math.random()\<close>;
  \<open>None\<close> is \<open>undefined\<close>.
\<close>

definition pick :: "'a list \<Rightarrow> number \<Rightarrow> 'a option" where
  "pick xs r =
     (let i = \<lfloor>r * of_nat (length xs)\<rfloor>
      in if 0 \<le> i \<and> nat i < length xs then Some (xs ! nat i) else None)"

text \<open>\<open>xs.slice(0, n)\<close> for an integer \<open>n\<close>.\<close>

definition slice0 :: "'a list \<Rightarrow> int \<Rightarrow> 'a list" where
  "slice0 xs n = (if n < 0 then take (nat (int (length xs) + n)) xs else take (nat n) xs)"

definition isInteger :: "number \<Rightarrow> bool" where
  "isInteger x = (of_int \<lfloor>x\<rfloor> = x)"

section \<open>Data model\<close>

text \<open>
  \<open>LocationData\<close> with the fields the modelled code reads. \<open>Restaurant\<close> follows the
  interface; \<open>description\<close> is optional in the model because the parser can leave it
  \<open>undefined\<close> and the validator reads it with \<open>?.\<close>.
\<close>

record LocationData =
  latitude :: number
  longitude :: number
  city :: "string option"

record Restaurant =
  rid :: string
  name :: string
  cuisine :: string
  description :: "string option"
  priceLevel :: number
  rating :: number
  reviewCount :: number
  address :: string
  phone :: "string option"
  website :: "string option"
  hours :: "string option"
  specialties :: "string list"
  dietaryOptions :: "string list"
  ambiance :: string
  bestFor :: "string list"
  estimatedWaitTime :: "string option"
  distance :: string
  matchScore :: int
  matchReasons :: "string list"
  imageUrl :: "string option"

section \<open>Library functions taken as parameters\<close>

text \<open>
  What the modelled code gets from the JavaScript runtime and is not modelled here:
  whether \<open>new URL(s)\<close> succeeds, \<open>parseFloat\<close> (\<open>None\<close> for NaN), the printing of an
  arbitrary number in a template string, the great-circle distance in miles that
  \<open>calculateDistance\<close> computes with floating-point trigonometry, and the order in
  which \<open>Array.prototype.sort\<close> leaves the accepted restaurants under
  \<open>compareRestaurantQuality\<close>. Every theorem holds for all values of these parameters.
\<close>

record js_env =
  validURL :: "string \<Rightarrow> bool"
  parseFloat :: "string \<Rightarrow> number option"
  numberToString :: "number \<Rightarrow> string"
  calculateDistance :: "number \<Rightarrow> number \<Rightarrow> number \<Rightarrow> number \<Rightarrow> number"
  sortByQuality :: "Restaurant list \<Rightarrow> Restaurant list"

section \<open>Quality validator\<close>

datatype severity = Error | Warning | Info

record ValidationIssue =
  field :: string
  severity :: severity
  message :: string
  code :: string

definition requiredFieldPresent :: "string \<Rightarrow> bool" where
  "requiredFieldPresent v = (truthyStr v \<and> length (trim v) > 0)"

definition optionalFieldPresent :: "string option \<Rightarrow> bool" where
  "optionalFieldPresent v =
     (case v of None \<Rightarrow> False | Some s \<Rightarrow> truthyStr s \<and> length (trim s) > 0)"

definition points :: "bool \<Rightarrow> number \<Rightarrow> number" where
  "points b p = (if b then p else 0)"

definition calculateCompleteness :: "Restaurant \<Rightarrow> number" where
  "calculateCompleteness r =
     (let score =
            points (requiredFieldPresent (name r)) 30
          + points (requiredFieldPresent (cuisine r)) 30
          + points (requiredFieldPresent (address r)) 30
          + points (optionalFieldPresent (phone r)) 10
          + points (optionalFieldPresent (website r)) 10
          + points (optionalFieldPresent (hours r)) 10
          + points (truthyNum (rating r)) 10
          + points (truthyNum (reviewCount r)) 10
          + points (length (specialties r) > 0) 5
          + points (length (dietaryOptions r) > 0) 5
          + points (length (bestFor r) > 0) 5;
          maxScore = 30 + 30 + 30 + 10 + 10 + 10 + 10 + 10 + 5 + 5 + 5
      in if maxScore > 0 then (score / maxScore) * 100 else 0)"

definition ratingBonus :: "Restaurant \<Rightarrow> number" where
  "ratingBonus r =
     (if truthyNum (rating r) \<and> truthyNum (reviewCount r) then
        (if rating r \<ge> 4 \<and> reviewCount r \<ge> 50 then 10
         else if rating r \<ge> 7 / 2 \<and> reviewCount r \<ge> 20 then 5 else 0)
      else 0)"

text \<open>
  The value of \<open>Math.round(score)\<close> in \<open>calculateQualityScore\<close>, before
  \<open>Math.max(0, Math.min(100, _))\<close> is applied to it.
\<close>

definition scoreBeforeClamp ::
  "Restaurant \<Rightarrow> ValidationIssue list \<Rightarrow> ValidationIssue list \<Rightarrow> int" where
  "scoreBeforeClamp r issues warnings =
     Math_round (100 - of_nat (length issues) * 20 - of_nat (length warnings) * 5
                 + (calculateCompleteness r - 50) * (3 / 10) + ratingBonus r)"

definition calculateQualityScore ::
  "Restaurant \<Rightarrow> ValidationIssue list \<Rightarrow> ValidationIssue list \<Rightarrow> int" where
  "calculateQualityScore r issues warnings =
     max 0 (min 100 (scoreBeforeClamp r issues warnings))"

section \<open>Result parser\<close>

record RawRestaurantData =
  raw_name :: "string option"
  raw_cuisine :: "string option"
  raw_description :: "string option"
  raw_priceLevel :: "number option"
  raw_rating :: "number option"
  raw_reviewCount :: "number option"
  raw_address :: "string option"
  raw_phone :: "string option"
  raw_website :: "string option"
  raw_hours :: "string option"
  raw_specialties :: "string list option"
  raw_dietaryOptions :: "string list option"
  raw_ambiance :: "string option"
  raw_bestFor :: "string list option"
  raw_estimatedWaitTime :: "string option"
  raw_coordinates :: "(number \<times> number) option"
  raw_sourceInfo :: "string option"
  raw_distance :: "string option"

definition CUISINE_TYPES :: "string list" where
  "CUISINE_TYPES =
     [''Italian'', ''Japanese'', ''Mexican'', ''Chinese'', ''Indian'', ''Thai'', ''French'',
      ''American'', ''Mediterranean'', ''Korean'', ''Vietnamese'', ''Greek'', ''Spanish'',
      ''Lebanese'', ''Turkish'', ''Moroccan'', ''Ethiopian'', ''German'', ''Brazilian'',
      ''Peruvian'', ''Fusion'', ''Contemporary'', ''International'', ''Seafood'',
      ''Steakhouse'', ''BBQ'', ''Pizza'', ''Sushi'', ''Ramen'', ''Burger'', ''Cafe'']"

definition cuisineMap :: "(string \<times> string) list" where
  "cuisineMap =
     [(''indo'', ''Indian''), (''asian'', ''Asian Fusion''), (''tex-mex'', ''Mexican''),
      (''continental'', ''International''), (''fast food'', ''American''),
      (''fast-food'', ''American''), (''diner'', ''American''), (''pub'', ''American''),
      (''gastropub'', ''American''), (''bistro'', ''French''), (''trattoria'', ''Italian''),
      (''pizzeria'', ''Pizza''), (''taqueria'', ''Mexican''), (''cantina'', ''Mexican''),
      (''sushi bar'', ''Sushi''), (''ramen shop'', ''Ramen''), (''barbecue'', ''BBQ''),
      (''steakhouse'', ''Steakhouse''), (''seafood'', ''Seafood'')]"

text \<open>
  \<open>normalizeCuisine\<close> returns a category name (\<open>Own\<close>), \<open>null\<close> (\<open>Undefined\<close>), or,
  for a key that \<open>cuisineMap\<close> inherits from \<open>Object.prototype\<close>, a value that is not
  a string (\<open>Inherited\<close>).
\<close>

definition normalizeCuisine :: "string \<Rightarrow> string js_prop" where
  "normalizeCuisine c =
     (let normalized = toLowerCase (trim c) in
      case find (\<lambda>t. toLowerCase t = normalized) CUISINE_TYPES of
        Some t \<Rightarrow> Own t
      | None \<Rightarrow> tableGet cuisineMap normalized)"

definition missingField :: "string option \<Rightarrow> bool" where
  "missingField v = (case v of None \<Rightarrow> True | Some s \<Rightarrow> s = [] \<or> length (trim s) = 0)"

definition nameChar :: "char \<Rightarrow> bool" where
  "nameChar c = (isLetter c \<or> isDigit c \<or> isSpace c \<or> c \<in> set ''-&.!'' \<or> c = CHR 0x27)"

text \<open>The test of \<open>/^[a-zA-Z0-9\s\-'&.!]+$/\<close>.\<close>

definition nameRegex :: "string \<Rightarrow> bool" where
  "nameRegex s = (s \<noteq> [] \<and> list_all nameChar s)"

definition phoneChar :: "char \<Rightarrow> bool" where
  "phoneChar c = (isDigit c \<or> isSpace c \<or> c \<in> set ''-()'')"

definition digit19 :: "char \<Rightarrow> bool" where
  "digit19 c = (49 \<le> (of_char c :: nat) \<and> (of_char c :: nat) \<le> 57)"

definition phoneTail :: "nat \<Rightarrow> nat \<Rightarrow> string \<Rightarrow> bool" where
  "phoneTail lo hi s = (list_all phoneChar s \<and> lo \<le> length s \<and> length s \<le> hi)"

text \<open>
  The test of \<open>/^[\+]?[1-9]?[\d\s\-\(\)]{10,15}$/\<close>: an optional plus sign, then the
  class ten to fifteen times, with or without one digit 1-9 before it.
\<close>

definition parserPhoneRegex :: "string \<Rightarrow> bool" where
  "parserPhoneRegex s =
     (let r = (case s of [] \<Rightarrow> [] | c # t \<Rightarrow> if c = CHR ''+'' then t else s)
      in phoneTail 10 15 r
         \<or> (case r of [] \<Rightarrow> False | d # t \<Rightarrow> digit19 d \<and> phoneTail 10 15 t))"

definition removeSpaces :: "string \<Rightarrow> string" where
  "removeSpaces s = filter (\<lambda>c. \<not> isSpace c) s"

definition errIf :: "bool \<Rightarrow> string \<Rightarrow> string list" where
  "errIf b msg = (if b then [msg] else [])"

text \<open>The checks of the parser's \<open>validateRestaurant\<close>, in the order of the source.\<close>

definition requiredFieldErrors :: "RawRestaurantData \<Rightarrow> string list" where
  "requiredFieldErrors d =
       errIf (missingField (raw_name d)) ''Missing required field: name''
     @ errIf (missingField (raw_cuisine d)) ''Missing required field: cuisine''
     @ errIf (missingField (raw_address d)) ''Missing required field: address''"

definition nameErrors :: "RawRestaurantData \<Rightarrow> string list" where
  "nameErrors d =
     (case raw_name d of
        None \<Rightarrow> []
      | Some n \<Rightarrow>
          if n = [] then []
          else errIf (length n < 2) ''Restaurant name too short''
             @ errIf (length n > 100) ''Restaurant name too long''
             @ errIf (\<not> nameRegex n) ''Restaurant name contains invalid characters'')"

definition cuisineErrors :: "RawRestaurantData \<Rightarrow> string list" where
  "cuisineErrors d =
     (case raw_cuisine d of
        None \<Rightarrow> []
      | Some c \<Rightarrow>
          if c = [] then []
          else errIf (normalizeCuisine c = Undefined) ''Unknown or invalid cuisine type'')"

definition priceLevelErrors :: "RawRestaurantData \<Rightarrow> string list" where
  "priceLevelErrors d =
     (case raw_priceLevel d of
        None \<Rightarrow> []
      | Some p \<Rightarrow> errIf (\<not> isInteger p \<or> p < 1 \<or> p > 5)
                   ''Price level must be an integer between 1 and 5'')"

definition ratingErrors :: "RawRestaurantData \<Rightarrow> string list" where
  "ratingErrors d =
     (case raw_rating d of
        None \<Rightarrow> []
      | Some r \<Rightarrow> errIf (r < 1 \<or> r > 5) ''Rating must be a number between 1 and 5'')"

definition reviewCountErrors :: "RawRestaurantData \<Rightarrow> string list" where
  "reviewCountErrors d =
     (case raw_reviewCount d of
        None \<Rightarrow> []
      | Some n \<Rightarrow> errIf (\<not> isInteger n \<or> n < 0)
                   ''Review count must be a non-negative integer'')"

definition addressErrors :: "RawRestaurantData \<Rightarrow> string list" where
  "addressErrors d =
     (case raw_address d of
        None \<Rightarrow> []
      | Some a \<Rightarrow> errIf (a \<noteq> [] \<and> length a < 10) ''Address appears to be incomplete'')"

definition coordinateErrors :: "js_env \<Rightarrow> RawRestaurantData \<Rightarrow> LocationData \<Rightarrow> string list" where
  "coordinateErrors env d location =
     (case raw_coordinates d of
        None \<Rightarrow> []
      | Some (lat, lng) \<Rightarrow>
          errIf (lat < - 90 \<or> lat > 90 \<or> lng < - 180 \<or> lng > 180) ''Invalid coordinates''
        @ (if truthyNum (latitude location) \<and> truthyNum (longitude location)
           then errIf (calculateDistance env (latitude location) (longitude location)
                         lat lng > 50)
                  ''Restaurant location too far from search area''
           else []))"

definition phoneErrors :: "RawRestaurantData \<Rightarrow> string list" where
  "phoneErrors d =
     (case raw_phone d of
        None \<Rightarrow> []
      | Some ph \<Rightarrow>
          if ph = [] then []
          else errIf (\<not> parserPhoneRegex (removeSpaces ph)) ''Invalid phone number format'')"

definition websiteErrors :: "js_env \<Rightarrow> RawRestaurantData \<Rightarrow> string list" where
  "websiteErrors env d =
     (case raw_website d of
        None \<Rightarrow> []
      | Some w \<Rightarrow>
          if w = [] then []
          else errIf (\<not> validURL env w) ''Invalid website URL'')"

definition parser_validateRestaurant ::
  "js_env \<Rightarrow> RawRestaurantData \<Rightarrow> LocationData \<Rightarrow> bool \<times> string list" where
  "parser_validateRestaurant env d location =
     (let errors =
            requiredFieldErrors d @ nameErrors d @ cuisineErrors d @ priceLevelErrors d
          @ ratingErrors d @ reviewCountErrors d @ addressErrors d
          @ coordinateErrors env d location @ phoneErrors d @ websiteErrors env d
      in (errors = [], errors))"

subsection \<open>Synthesis of missing fields\<close>

text \<open>The draws of \<open>Math.random()\<close> that one call of \<open>transformToRestaurant\<close> may make.\<close>

record draws =
  r_description :: number
  r_rating :: number
  r_reviewCount :: number
  r_hours :: number
  r_dietary :: number

definition descriptionTemplates :: "(string \<times> string list) list" where
  "descriptionTemplates =
     [(''Italian'', [''Authentic Italian cuisine with traditional recipes'',
                     ''Classic Italian dishes in a warm atmosphere'']),
      (''Japanese'', [''Fresh sushi and authentic Japanese flavors'',
                      ''Traditional Japanese cuisine with modern touches'']),
      (''Mexican'', [''Vibrant Mexican flavors with fresh ingredients'',
                     ''Authentic Mexican dishes and festive atmosphere'']),
      (''Chinese'', [''Traditional Chinese cuisine with authentic flavors'',
                     ''Classic Chinese dishes prepared with care'']),
      (''Indian'', [''Aromatic Indian spices and traditional recipes'',
                    ''Rich Indian flavors and authentic preparations'']),
      (''American'', [''Contemporary American cuisine with local ingredients'',
                      ''Classic American dishes with modern presentation'']),
      (''default'', [''Quality cuisine prepared with fresh ingredients'',
                     ''Delicious dishes in a welcoming atmosphere''])]"

text \<open>
  An inherited value has no elements, so indexing it gives \<open>undefined\<close> whatever its
  \<open>length\<close> is.
\<close>

definition generateDescription :: "string \<Rightarrow> number \<Rightarrow> string option" where
  "generateDescription cuisineName r =
     (case tableGet descriptionTemplates cuisineName of
        Own descriptions \<Rightarrow> pick descriptions r
      | Inherited \<Rightarrow> None
      | Undefined \<Rightarrow>
          pick [''Quality cuisine prepared with fresh ingredients'',
                ''Delicious dishes in a welcoming atmosphere''] r)"

definition cuisinePriceLevels :: "(string \<times> number) list" where
  "cuisinePriceLevels =
     [(''French'', 4), (''Steakhouse'', 4), (''Sushi'', 4), (''Pizza'', 2), (''American'', 3),
      (''Mexican'', 2), (''Chinese'', 2), (''Indian'', 2)]"

text \<open>\<open>None\<close>: the value returned is an inherited function, not a number.\<close>

definition inferPriceLevel :: "string \<Rightarrow> string \<Rightarrow> number option" where
  "inferPriceLevel nm cuisineName =
     (let nameLower = toLowerCase nm in
      if str_includes nameLower ''fine'' \<or> str_includes nameLower ''upscale''
         \<or> str_includes nameLower ''premium'' then Some 5
      else if str_includes nameLower ''bistro'' \<or> str_includes nameLower ''brasserie'' then Some 4
      else if str_includes nameLower ''casual'' \<or> str_includes nameLower ''family'' then Some 2
      else if str_includes nameLower ''fast'' \<or> str_includes nameLower ''quick'' then Some 1
      else (case tableGet cuisinePriceLevels cuisineName of
              Own v \<Rightarrow> Some (if v = 0 then 3 else v)
            | Inherited \<Rightarrow> None
            | Undefined \<Rightarrow> Some 3))"

definition generateFallbackRating :: "number \<Rightarrow> number" where
  "generateFallbackRating r = of_int (Math_round ((r * 2 + 3) * 10)) / 10"

definition generateFallbackReviewCount :: "number \<Rightarrow> number" where
  "generateFallbackReviewCount r = of_int \<lfloor>r * 1000\<rfloor> + 50"

definition generateFallbackHours :: "number \<Rightarrow> string option" where
  "generateFallbackHours r =
     pick [''Mon-Thu 11am-10pm, Fri-Sat 11am-11pm, Sun 12pm-9pm'',
           ''Daily 11am-10pm'',
           ''Mon-Sat 5pm-11pm, Sun Closed'',
           ''Daily 12pm-9pm''] r"

definition specialtiesTable :: "(string \<times> string list) list" where
  "specialtiesTable =
     [(''Italian'', [''Pasta'', ''Pizza'', ''Risotto'', ''Osso Buco'']),
      (''Japanese'', [''Sushi'', ''Ramen'', ''Tempura'', ''Miso Soup'']),
      (''Mexican'', [''Tacos'', ''Guacamole'', ''Enchiladas'', ''Churros'']),
      (''Chinese'', [''Kung Pao Chicken'', ''Fried Rice'', ''Dim Sum'', ''Hot Pot'']),
      (''Indian'', [''Butter Chicken'', ''Biryani'', ''Naan'', ''Tandoori'']),
      (''American'', [''Burgers'', ''BBQ Ribs'', ''Mac and Cheese'', ''Apple Pie''])]"

text \<open>\<open>None\<close>: \<open>slice\<close> is called on an inherited value and throws.\<close>

definition generateSpecialties :: "string \<Rightarrow> string list option" where
  "generateSpecialties cuisineName =
     (case tableGet specialtiesTable cuisineName of
        Own cuisineSpecialties \<Rightarrow> Some (slice0 cuisineSpecialties 3)
      | Inherited \<Rightarrow> None
      | Undefined \<Rightarrow> Some (slice0 [''House Special'', ''Chef's Choice''] 3))"

definition generateDietaryOptions :: "number \<Rightarrow> string list" where
  "generateDietaryOptions r =
     slice0 [''Vegetarian'', ''Vegan'', ''Gluten-Free'', ''Dairy-Free''] (\<lfloor>r * 2\<rfloor> + 1)"

definition generateAmbiance :: "number \<Rightarrow> string" where
  "generateAmbiance p =
     (if p \<ge> 4 then ''Upscale and elegant''
      else if p \<le> 2 then ''Casual and family-friendly''
      else ''Modern and trendy'')"

definition generateBestFor :: "number \<Rightarrow> string list" where
  "generateBestFor p =
     (if p \<ge> 4 then [''Date Night'', ''Special Occasions'']
      else if p \<le> 2 then [''Family Dinner'', ''Quick Bite'']
      else [''Casual Dining'', ''Group Dining''])"

definition truthyNumOpt :: "number option \<Rightarrow> bool" where
  "truthyNumOpt v = (case v of None \<Rightarrow> False | Some x \<Rightarrow> x \<noteq> 0)"

definition scoreIf :: "bool \<Rightarrow> int \<Rightarrow> int" where
  "scoreIf b p = (if b then p else 0)"

definition calculateMatchScore :: "RawRestaurantData \<Rightarrow> string \<Rightarrow> string \<Rightarrow> string \<Rightarrow> int" where
  "calculateMatchScore d nm searchQuery cuisineName =
     (let queryLower = toLowerCase searchQuery;
          nameLower = toLowerCase nm;
          cuisineLower = toLowerCase cuisineName;
          score = 50
            + scoreIf (str_includes nameLower queryLower) 30
            + scoreIf (str_includes queryLower nameLower) 20
            + scoreIf (str_includes queryLower cuisineLower) 25
            + scoreIf (str_includes cuisineLower queryLower) 15
            + scoreIf (case raw_rating d of None \<Rightarrow> False | Some r \<Rightarrow> r \<noteq> 0 \<and> r \<ge> 4) 10
            + scoreIf (case raw_reviewCount d of None \<Rightarrow> False | Some n \<Rightarrow> n \<noteq> 0 \<and> n > 100) 5
            + scoreIf (truthyOpt (raw_phone d)) 3
            + scoreIf (truthyOpt (raw_website d)) 3
            + scoreIf (truthyOpt (raw_hours d)) 2
      in min 100 (max 0 score))"

definition generateMatchReasons ::
  "js_env \<Rightarrow> RawRestaurantData \<Rightarrow> string \<Rightarrow> string \<Rightarrow> string list" where
  "generateMatchReasons env d searchQuery cuisineName =
     (let queryLower = toLowerCase searchQuery;
          reasons =
            (if str_includes queryLower (toLowerCase cuisineName)
             then [''Matches '' @ cuisineName @ '' cuisine preference''] else [])
          @ (case raw_rating d of
               None \<Rightarrow> []
             | Some r \<Rightarrow> if r \<noteq> 0 \<and> r \<ge> 4
                         then [''High rating ('' @ numberToString env r @ ''/5)''] else [])
          @ (case raw_dietaryOptions d of
               None \<Rightarrow> []
             | Some ds \<Rightarrow> if length ds > 0
                          then [''Offers '' @ join '', '' (slice0 ds 2) @ '' options''] else [])
          @ (case raw_distance d of
               None \<Rightarrow> []
             | Some s \<Rightarrow>
                 if s \<noteq> [] \<and> (case parseFloat env s of None \<Rightarrow> False | Some v \<Rightarrow> v < 2)
                 then [''Close to your location''] else [])
          @ (case raw_reviewCount d of
               None \<Rightarrow> []
             | Some n \<Rightarrow> if n \<noteq> 0 \<and> n > 500 then [''Popular with many reviews''] else [])
      in slice0 reasons 3)"

text \<open>
  The outcome of \<open>transformToRestaurant\<close>: \<open>null\<close> after a caught exception, a
  restaurant, or an object whose \<open>priceLevel\<close> is an inherited function rather than a
  number (only for a cuisine that the validation rejects).
\<close>

datatype transform_result = Null | Untyped | Produced Restaurant

text \<open>The distance string computed at the start of \<open>transformToRestaurant\<close>.\<close>

definition computedDistance :: "js_env \<Rightarrow> RawRestaurantData \<Rightarrow> LocationData \<Rightarrow> string option" where
  "computedDistance env d location =
     (if \<not> truthyOpt (raw_distance d) \<and> truthyNum (latitude location)
         \<and> truthyNum (longitude location)
      then (case raw_coordinates d of
              None \<Rightarrow> raw_distance d
            | Some (lat, lng) \<Rightarrow>
                Some (toFixed1 (calculateDistance env (latitude location)
                                  (longitude location) lat lng) @ '' mi''))
      else raw_distance d)"

definition priceOr3 :: "RawRestaurantData \<Rightarrow> number" where
  "priceOr3 d = (case raw_priceLevel d of None \<Rightarrow> 3 | Some p \<Rightarrow> if p = 0 then 3 else p)"

text \<open>
  The object literal of \<open>transformToRestaurant\<close>, given the name, the address, the
  normalised cuisine, and the specialties and price level once they are known to be an
  array and a number.
\<close>

definition restaurantLiteral ::
  "js_env \<Rightarrow> int \<Rightarrow> draws \<Rightarrow> RawRestaurantData \<Rightarrow> nat \<Rightarrow> LocationData \<Rightarrow> string
     \<Rightarrow> string \<Rightarrow> string \<Rightarrow> string \<Rightarrow> string list \<Rightarrow> number \<Rightarrow> Restaurant" where
  "restaurantLiteral env now rnd d index location searchQuery nm addr normalizedCuisine
       specs price =
     \<lparr> rid = ''parsed-'' @ intToString now @ ''-'' @ natToString index,
       name = trim nm,
       cuisine = normalizedCuisine,
       description =
         (if truthyOpt (raw_description d) then raw_description d
          else generateDescription normalizedCuisine (r_description rnd)),
       priceLevel = price,
       rating =
         (if truthyNumOpt (raw_rating d) then the (raw_rating d)
          else generateFallbackRating (r_rating rnd)),
       reviewCount =
         (if truthyNumOpt (raw_reviewCount d) then the (raw_reviewCount d)
          else generateFallbackReviewCount (r_reviewCount rnd)),
       address = trim addr,
       phone = raw_phone d,
       website = raw_website d,
       hours =
         (if truthyOpt (raw_hours d) then raw_hours d
          else generateFallbackHours (r_hours rnd)),
       specialties = specs,
       dietaryOptions =
         (case raw_dietaryOptions d of
            None \<Rightarrow> generateDietaryOptions (r_dietary rnd)
          | Some ds \<Rightarrow> ds),
       ambiance =
         (if truthyOpt (raw_ambiance d) then the (raw_ambiance d)
          else generateAmbiance (priceOr3 d)),
       bestFor =
         (case raw_bestFor d of
            None \<Rightarrow> generateBestFor (priceOr3 d)
          | Some b \<Rightarrow> b),
       estimatedWaitTime = raw_estimatedWaitTime d,
       distance =
         (if truthyOpt (computedDistance env d location)
          then the (computedDistance env d location) else ''Unknown''),
       matchScore = calculateMatchScore d nm searchQuery normalizedCuisine,
       matchReasons = generateMatchReasons env d searchQuery normalizedCuisine,
       imageUrl =
         Some (''/placeholder.svg?height=200&width=300&text='' @ encodeURIComponent nm) \<rparr>"

text \<open>
  The rest of \<open>transformToRestaurant\<close> once the cuisine is normalised to a string.
\<close>

definition transformWith ::
  "js_env \<Rightarrow> int \<Rightarrow> draws \<Rightarrow> RawRestaurantData \<Rightarrow> nat \<Rightarrow> LocationData \<Rightarrow> string
     \<Rightarrow> string \<Rightarrow> string \<Rightarrow> string \<Rightarrow> transform_result" where
  "transformWith env now rnd d index location searchQuery nm addr normalizedCuisine =
     (case (if raw_specialties d = None then generateSpecialties normalizedCuisine
            else raw_specialties d) of
        None \<Rightarrow> Null
      | Some specs \<Rightarrow>
          (case (if truthyNumOpt (raw_priceLevel d) then raw_priceLevel d
                 else inferPriceLevel nm normalizedCuisine) of
             None \<Rightarrow> Untyped
           | Some price \<Rightarrow>
               Produced (restaurantLiteral env now rnd d index location searchQuery nm addr
                           normalizedCuisine specs price)))"

text \<open>
  \<open>transformToRestaurant\<close>. An exception (a missing name, cuisine or address, a cuisine
  that is not a string, \<open>slice\<close> on an inherited value) is caught and gives \<open>null\<close>.
\<close>

definition transformToRestaurant ::
  "js_env \<Rightarrow> int \<Rightarrow> draws \<Rightarrow> RawRestaurantData \<Rightarrow> nat \<Rightarrow> LocationData \<Rightarrow> string
     \<Rightarrow> transform_result" where
  "transformToRestaurant env now rnd d index location searchQuery =
     (case (raw_name d, raw_cuisine d, raw_address d) of
        (Some nm, Some c, Some addr) \<Rightarrow>
          (case normalizeCuisine c of
             Inherited \<Rightarrow> Null
           | Own t \<Rightarrow>
               transformWith env now rnd d index location searchQuery nm addr t
           | Undefined \<Rightarrow>
               transformWith env now rnd d index location searchQuery nm addr c)
      | _ \<Rightarrow> Null)"

subsection \<open>Parsing a list of candidates\<close>







text \<open>A candidate with nothing but the three required fields.\<close>

definition onlyRequiredFields :: "RawRestaurantData \<Rightarrow> bool" where
  "onlyRequiredFields d =
     (raw_description d = None \<and> raw_priceLevel d = None \<and> raw_rating d = None
      \<and> raw_reviewCount d = None \<and> raw_phone d = None \<and> raw_website d = None
      \<and> raw_hours d = None \<and> raw_specialties d = None \<and> raw_dietaryOptions d = None
      \<and> raw_ambiance d = None \<and> raw_bestFor d = None \<and> raw_estimatedWaitTime d = None
      \<and> raw_coordinates d = None \<and> raw_sourceInfo d = None \<and> raw_distance d = None)"

definition unitDraws :: "draws \<Rightarrow> bool" where
  "unitDraws rnd =
     (0 \<le> r_description rnd \<and> r_description rnd < 1 \<and> 0 \<le> r_rating rnd \<and> r_rating rnd < 1
      \<and> 0 \<le> r_reviewCount rnd \<and> r_reviewCount rnd < 1 \<and> 0 \<le> r_hours rnd \<and> r_hours rnd < 1
      \<and> 0 \<le> r_dietary rnd \<and> r_dietary rnd < 1)"

section \<open>Search cache\<close>

record CacheMetadata =
  meta_location :: LocationData
  meta_query :: string
  resultCount :: nat
  meta_version :: string

record 'a CacheEntry =
  key :: string
  data :: 'a
  timestamp :: int
  expiresAt :: int
  metadata :: CacheMetadata
  accessCount :: nat
  lastAccessed :: int


record CacheCounters =
  hits :: nat
  misses :: nat
  evictions :: nat
  totalRequests :: nat

record 'a SearchCache =
  cache :: "(string \<times> 'a CacheEntry) list"
  accessOrder :: "string list"
  ttl :: int
  maxSize :: int
  version :: string
  stats :: CacheCounters



definition removeFromAccessOrder :: "string \<Rightarrow> string list \<Rightarrow> string list" where
  "removeFromAccessOrder k order = remove1 k order"

definition updateAccessOrder :: "string \<Rightarrow> string list \<Rightarrow> string list" where
  "updateAccessOrder k order = removeFromAccessOrder k order @ [k]"

definition evictLRU :: "'a SearchCache \<Rightarrow> 'a SearchCache" where
  "evictLRU c =
     (case accessOrder c of
        [] \<Rightarrow> c
      | lruKey # rest \<Rightarrow>
          c\<lparr> cache := AList.delete lruKey (cache c),
             accessOrder := rest,
             stats := (stats c)\<lparr> evictions := evictions (stats c) + 1 \<rparr> \<rparr>)"

text \<open>
  \<open>get\<close> reads the clock twice: \<open>now\<close> for the expiry test and \<open>now'\<close> for the
  access bookkeeping of a hit.
\<close>

definition cache_get :: "int \<Rightarrow> int \<Rightarrow> string \<Rightarrow> 'a SearchCache \<Rightarrow> 'a option \<times> 'a SearchCache" where
  "cache_get now now' k c =
     (let c1 = c\<lparr> stats := (stats c)\<lparr> totalRequests := totalRequests (stats c) + 1 \<rparr> \<rparr> in
      case map_of (cache c1) k of
        None \<Rightarrow> (None, c1\<lparr> stats := (stats c1)\<lparr> misses := misses (stats c1) + 1 \<rparr> \<rparr>)
      | Some entry \<Rightarrow>
          if now > expiresAt entry then
            (None, c1\<lparr> cache := AList.delete k (cache c1),
                       accessOrder := removeFromAccessOrder k (accessOrder c1),
                       stats := (stats c1)\<lparr> misses := misses (stats c1) + 1 \<rparr> \<rparr>)
          else
            (Some (data entry),
             c1\<lparr> cache := AList.update k
                      (entry\<lparr> accessCount := accessCount entry + 1, lastAccessed := now' \<rparr>)
                      (cache c1),
                 accessOrder := updateAccessOrder k (accessOrder c1),
                 stats := (stats c1)\<lparr> hits := hits (stats c1) + 1 \<rparr> \<rparr>))"

definition cache_set ::
  "int \<Rightarrow> string \<Rightarrow> 'a \<Rightarrow> LocationData \<times> string \<times> nat \<Rightarrow> 'a SearchCache \<Rightarrow> 'a SearchCache" where
  "cache_set now k d m c =
     (let c1 = (if int (length (cache c)) \<ge> maxSize c \<and> map_of (cache c) k = None
                then evictLRU c else c);
          entry = \<lparr> key = k, data = d, timestamp = now, expiresAt = now + ttl c1,
                    metadata = \<lparr> meta_location = fst m, meta_query = fst (snd m),
                                 resultCount = snd (snd m), meta_version = version c1 \<rparr>,
                    accessCount = 1, lastAccessed = now \<rparr>
      in c1\<lparr> cache := AList.update k entry (cache c1),
             accessOrder := updateAccessOrder k (accessOrder c1) \<rparr>)"

definition cache_has :: "int \<Rightarrow> string \<Rightarrow> 'a SearchCache \<Rightarrow> bool \<times> 'a SearchCache" where
  "cache_has now k c =
     (case map_of (cache c) k of
        None \<Rightarrow> (False, c)
      | Some entry \<Rightarrow>
          if now > expiresAt entry then
            (False, c\<lparr> cache := AList.delete k (cache c),
                       accessOrder := removeFromAccessOrder k (accessOrder c) \<rparr>)
          else (True, c))"

definition cache_delete :: "string \<Rightarrow> 'a SearchCache \<Rightarrow> bool \<times> 'a SearchCache" where
  "cache_delete k c =
     (if map_of (cache c) k \<noteq> None then
        (True, c\<lparr> cache := AList.delete k (cache c),
                  accessOrder := removeFromAccessOrder k (accessOrder c) \<rparr>)
      else (False, c))"

text \<open>A client's operation on the cache, with the clock readings it makes.\<close>

datatype 'a cache_op =
    Get int int string
  | Set int string 'a "LocationData \<times> string \<times> nat"
  | Has int string
  | Delete string

fun apply_op :: "'a cache_op \<Rightarrow> 'a SearchCache \<Rightarrow> 'a SearchCache" where
  "apply_op (Get now now' k) c = snd (cache_get now now' k c)"
| "apply_op (Set now k d m) c = cache_set now k d m c"
| "apply_op (Has now k) c = snd (cache_has now k c)"
| "apply_op (Delete k) c = snd (cache_delete k c)"

fun run_ops :: "'a cache_op list \<Rightarrow> 'a SearchCache \<Rightarrow> 'a SearchCache" where
  "run_ops [] c = c"
| "run_ops (x # xs) c = run_ops xs (apply_op x c)"







subsection \<open>Invariants of the cache\<close>

text \<open>
  The recency list holds exactly the stored keys, once each; the entries are in the order
  of their last access, none later than the clock reading \<open>T\<close>; the number of entries
  is within the capacity.
\<close>

definition order_ok :: "(string \<times> 'b) list \<Rightarrow> string list \<Rightarrow> bool" where
  "order_ok al ao = (distinct (map fst al) \<and> distinct ao \<and> set ao = set (map fst al))"

definition cache_inv :: "'a SearchCache \<Rightarrow> bool" where
  "cache_inv c = order_ok (cache c) (accessOrder c)"




section \<open>Cache key derivation\<close>






section \<open>A sample environment\<close>

text \<open>
  One choice of the library parameters, of the clock and of the random draws, for
  evaluating the model on concrete inputs.
\<close>

definition example_validURL :: "string \<Rightarrow> bool" where
  "example_validURL s = (startsWith s ''http://'' \<or> startsWith s ''https://'')"

definition example_parseFloat :: "string \<Rightarrow> number option" where
  "example_parseFloat s = None"

definition example_numberToString :: "number \<Rightarrow> string" where
  "example_numberToString x = intToString \<lfloor>x\<rfloor>"

definition example_distance :: "number \<Rightarrow> number \<Rightarrow> number \<Rightarrow> number \<Rightarrow> number" where
  "example_distance lat1 lon1 lat2 lon2 = 0"

definition example_sort :: "Restaurant list \<Rightarrow> Restaurant list" where
  "example_sort rs = rs"

definition example_env :: js_env where
  "example_env =
     \<lparr> validURL = example_validURL, parseFloat = example_parseFloat,
       numberToString = example_numberToString, calculateDistance = example_distance,
       sortByQuality = example_sort \<rparr>"

definition example_clock :: "nat \<Rightarrow> int" where
  "example_clock i = 1700000000000 + int i"

definition example_draws :: "nat \<Rightarrow> draws" where
  "example_draws i =
     \<lparr> r_description = 1 / 4, r_rating = 1 / 2, r_reviewCount = 3 / 4, r_hours = 1 / 3,
       r_dietary = 2 / 3 \<rparr>"

definition example_location :: LocationData where
  "example_location = \<lparr> latitude = 377749 / 10000, longitude = - 1224194 / 10000,
                         city = Some ''San Francisco'' \<rparr>"

definition example_raw :: RawRestaurantData where
  "example_raw =
     \<lparr> raw_name = Some ''Luigi's Trattoria'', raw_cuisine = Some ''trattoria'',
       raw_description = None, raw_priceLevel = None, raw_rating = None,
       raw_reviewCount = None, raw_address = Some ''12 Main St, San Francisco'',
       raw_phone = None, raw_website = None, raw_hours = None, raw_specialties = None,
       raw_dietaryOptions = None, raw_ambiance = None, raw_bestFor = None,
       raw_estimatedWaitTime = None, raw_coordinates = None, raw_sourceInfo = None,
       raw_distance = None \<rparr>"


section \<open>Properties of the quality validator\<close>

lemma Math_round_diff_int: "Math_round (x - of_int k) = Math_round x - k"
proof -
  have "x - of_int k + 1 / 2 = (x + 1 / 2) - of_int k" by simp
  then show ?thesis unfolding Math_round_def by (simp only: floor_diff_of_int)
qed

text \<open>
  C4. Pushing one more issue on the error list lowers the rounded score by exactly 20
  before it is clamped to [0,100]; pushing one more warning lowers it by exactly 5. The
  returned score is that value clamped.
\<close>

theorem score_monotonicity:
  "scoreBeforeClamp r (issues @ [i]) warnings = scoreBeforeClamp r issues warnings - 20
   \<and> scoreBeforeClamp r issues (warnings @ [w]) = scoreBeforeClamp r issues warnings - 5
   \<and> calculateQualityScore r issues warnings
       = max 0 (min 100 (scoreBeforeClamp r issues warnings))"
proof -
  let ?c = "(calculateCompleteness r - 50) * (3 / 10)"
  let ?b = "ratingBonus r"
  let ?n = "rat_of_nat (length issues)"
  let ?m = "rat_of_nat (length warnings)"
  have e: "100 - rat_of_nat (length (issues @ [i])) * 20 - ?m * 5 + ?c + ?b
           = (100 - ?n * 20 - ?m * 5 + ?c + ?b) - rat_of_int 20"
    by (simp add: algebra_simps)
  have w: "100 - ?n * 20 - rat_of_nat (length (warnings @ [w])) * 5 + ?c + ?b
           = (100 - ?n * 20 - ?m * 5 + ?c + ?b) - rat_of_int 5"
    by (simp add: algebra_simps)
  have "scoreBeforeClamp r (issues @ [i]) warnings = scoreBeforeClamp r issues warnings - 20"
    unfolding scoreBeforeClamp_def by (simp only: e Math_round_diff_int)
  moreover
  have "scoreBeforeClamp r issues (warnings @ [w]) = scoreBeforeClamp r issues warnings - 5"
    unfolding scoreBeforeClamp_def by (simp only: w Math_round_diff_int)
  ultimately show ?thesis
    by (simp only: calculateQualityScore_def)
qed

section \<open>Properties of the result parser\<close>

lemma pick_in:
  assumes "0 \<le> r" "r < 1" "xs \<noteq> []"
  shows "\<exists>x \<in> set xs. pick xs r = Some x"
proof -
  let ?n = "of_nat (length xs) :: rat"
  have n: "0 < ?n" using assms(3) by simp
  have "0 \<le> r * ?n" using assms(1) n by simp
  then have lo: "0 \<le> \<lfloor>r * ?n\<rfloor>" by simp
  have "r * ?n < ?n" using assms(2) n by simp
  then have "\<lfloor>r * ?n\<rfloor> < int (length xs)" by (simp add: floor_less_iff)
  then have hi: "nat \<lfloor>r * ?n\<rfloor> < length xs" using lo by linarith
  then have "xs ! nat \<lfloor>r * ?n\<rfloor> \<in> set xs" by simp
  then show ?thesis using lo hi by (simp add: pick_def Let_def)
qed

lemma pick_truthy:
  assumes "0 \<le> r" "r < 1" "xs \<noteq> []" "\<forall>x \<in> set xs. x \<noteq> []"
  shows "truthyOpt (pick xs r)"
  using pick_in[OF assms(1,2,3)] assms(4) by (auto simp: truthyOpt_def)

lemma normalizeCuisine_Own:
  assumes "normalizeCuisine c = Own t"
  shows "t \<in> set CUISINE_TYPES \<union> snd ` set cuisineMap"
proof (cases "find (\<lambda>t. toLowerCase t = toLowerCase (trim c)) CUISINE_TYPES")
  case None
  with assms have "tableGet cuisineMap (toLowerCase (trim c)) = Own t"
    by (simp add: normalizeCuisine_def Let_def)
  then have "map_of cuisineMap (toLowerCase (trim c)) = Some t"
    by (simp add: tableGet_def split: option.splits if_splits)
  then have "(toLowerCase (trim c), t) \<in> set cuisineMap" by (rule map_of_SomeD)
  then show ?thesis by force
next
  case (Some u)
  with assms have "u = t" by (simp add: normalizeCuisine_def Let_def)
  moreover have "u \<in> set CUISINE_TYPES" using Some by (auto simp: find_Some_iff)
  ultimately show ?thesis by simp
qed

lemma known_cuisine_not_inherited:
  assumes "t \<in> set CUISINE_TYPES \<union> snd ` set cuisineMap"
  shows "t \<notin> set objectPrototypeKeys \<and> t \<noteq> []"
  using assms
  by (auto simp: CUISINE_TYPES_def cuisineMap_def objectPrototypeKeys_def)

lemma tableGet_not_Inherited: "k \<notin> set objectPrototypeKeys \<Longrightarrow> tableGet tbl k \<noteq> Inherited"
  by (simp add: tableGet_def split: option.splits)

lemma descriptionTemplates_ok:
  assumes "tableGet descriptionTemplates k = Own ds"
  shows "ds \<noteq> [] \<and> (\<forall>x \<in> set ds. x \<noteq> [])"
proof -
  from assms have "map_of descriptionTemplates k = Some ds"
    by (simp add: tableGet_def split: option.splits if_splits)
  then have "(k, ds) \<in> set descriptionTemplates" by (rule map_of_SomeD)
  then show ?thesis by (auto simp: descriptionTemplates_def)
qed

lemma generateDescription_truthy:
  assumes "0 \<le> r" "r < 1" "k \<notin> set objectPrototypeKeys"
  shows "truthyOpt (generateDescription k r)"
proof (cases "tableGet descriptionTemplates k")
  case Undefined
  then show ?thesis
    using pick_truthy[OF assms(1,2)] by (simp add: generateDescription_def)
next
  case (Own ds)
  then show ?thesis
    using pick_truthy[OF assms(1,2)] descriptionTemplates_ok[OF Own]
    by (simp add: generateDescription_def)
next
  case Inherited
  then show ?thesis using tableGet_not_Inherited[OF assms(3)] by blast
qed

lemma inferPriceLevel_range:
  assumes "k \<notin> set objectPrototypeKeys"
  shows "\<exists>p. inferPriceLevel nm k = Some p \<and> 1 \<le> p \<and> p \<le> 5"
proof (cases "tableGet cuisinePriceLevels k")
  case Undefined
  then show ?thesis by (simp add: inferPriceLevel_def Let_def)
next
  case (Own v)
  then have "map_of cuisinePriceLevels k = Some v"
    by (simp add: tableGet_def split: option.splits if_splits)
  then have "(k, v) \<in> set cuisinePriceLevels" by (rule map_of_SomeD)
  then have "v \<in> {2, 3, 4}" by (auto simp: cuisinePriceLevels_def)
  then show ?thesis using Own by (auto simp: inferPriceLevel_def Let_def)
next
  case Inherited
  then show ?thesis using tableGet_not_Inherited[OF assms] by blast
qed

lemma generateSpecialties_nonempty:
  assumes "k \<notin> set objectPrototypeKeys"
  shows "\<exists>xs. generateSpecialties k = Some xs \<and> xs \<noteq> []"
proof (cases "tableGet specialtiesTable k")
  case Undefined
  then show ?thesis by (simp add: generateSpecialties_def slice0_def)
next
  case (Own xs)
  then have "map_of specialtiesTable k = Some xs"
    by (simp add: tableGet_def split: option.splits if_splits)
  then have "(k, xs) \<in> set specialtiesTable" by (rule map_of_SomeD)
  then have "xs \<noteq> []" by (auto simp: specialtiesTable_def)
  then show ?thesis using Own by (simp add: generateSpecialties_def slice0_def)
next
  case Inherited
  then show ?thesis using tableGet_not_Inherited[OF assms] by blast
qed

lemma generateFallbackRating_range:
  assumes "0 \<le> r" "r < 1"
  shows "3 \<le> generateFallbackRating r \<and> generateFallbackRating r \<le> 5"
proof -
  have lo: "30 \<le> (r * 2 + 3) * 10 + 1 / 2" using assms(1) by simp
  have hi: "(r * 2 + 3) * 10 + 1 / 2 < 51" using assms(2) by simp
  have "30 \<le> Math_round ((r * 2 + 3) * 10)"
    unfolding Math_round_def using lo by (simp add: le_floor_iff)
  moreover have "Math_round ((r * 2 + 3) * 10) < 51"
    unfolding Math_round_def using hi by (simp add: floor_less_iff)
  ultimately have "30 \<le> (of_int (Math_round ((r * 2 + 3) * 10)) :: rat)"
    and "(of_int (Math_round ((r * 2 + 3) * 10)) :: rat) \<le> 50"
    by linarith+
  then show ?thesis by (simp add: generateFallbackRating_def)
qed

lemma generateFallbackReviewCount_range:
  assumes "0 \<le> r"
  shows "50 \<le> generateFallbackReviewCount r"
proof -
  have "0 \<le> r * 1000" using assms by simp
  then have "0 \<le> \<lfloor>r * 1000\<rfloor>" by simp
  then show ?thesis by (simp add: generateFallbackReviewCount_def)
qed

lemma generateDietaryOptions_nonempty:
  assumes "0 \<le> r"
  shows "generateDietaryOptions r \<noteq> []"
proof -
  define n where "n = \<lfloor>r * 2\<rfloor> + 1"
  have "0 \<le> r * 2" using assms by simp
  then have "0 \<le> \<lfloor>r * 2\<rfloor>" by simp
  then have "1 \<le> n" by (simp add: n_def)
  then obtain m where m: "nat n = Suc m" and nn: "\<not> n < 0"
    by (cases "nat n") auto
  have "generateDietaryOptions r
        = slice0 [''Vegetarian'', ''Vegan'', ''Gluten-Free'', ''Dairy-Free''] n"
    by (simp only: generateDietaryOptions_def n_def)
  then show ?thesis using m nn by (simp add: slice0_def)
qed

lemma generateAmbiance_nonempty: "generateAmbiance p \<noteq> []"
  by (simp add: generateAmbiance_def)

lemma generateBestFor_nonempty: "generateBestFor p \<noteq> []"
  by (simp add: generateBestFor_def)

lemma validated_required:
  assumes "fst (parser_validateRestaurant env d location)"
  shows "\<exists>nm c addr. raw_name d = Some nm \<and> raw_cuisine d = Some c \<and> raw_address d = Some addr
           \<and> c \<noteq> [] \<and> normalizeCuisine c \<noteq> Undefined"
proof -
  from assms have r: "requiredFieldErrors d = []" and ce: "cuisineErrors d = []"
    by (simp_all add: parser_validateRestaurant_def Let_def)
  from r have a: "\<not> missingField (raw_name d)" and b: "\<not> missingField (raw_cuisine d)"
    and c: "\<not> missingField (raw_address d)"
    by (auto simp: requiredFieldErrors_def errIf_def split: if_splits)
  from a obtain nm where nm: "raw_name d = Some nm"
    by (cases "raw_name d") (auto simp: missingField_def)
  from b obtain cu where cu: "raw_cuisine d = Some cu" "cu \<noteq> []"
    by (cases "raw_cuisine d") (auto simp: missingField_def)
  from c obtain addr where addr: "raw_address d = Some addr"
    by (cases "raw_address d") (auto simp: missingField_def)
  from ce cu have "normalizeCuisine cu \<noteq> Undefined"
    by (auto simp: cuisineErrors_def errIf_def split: if_splits)
  with nm cu addr show ?thesis by blast
qed

lemma literal_fields:
  assumes "onlyRequiredFields d" "unitDraws rnd" "k \<notin> set objectPrototypeKeys"
    "specs \<noteq> []" "1 \<le> price" "price \<le> 5"
    and r_def: "r = restaurantLiteral env now rnd d index location q nm addr k specs price"
  shows "truthyOpt (description r) \<and> 1 \<le> priceLevel r \<and> priceLevel r \<le> 5
     \<and> 3 \<le> rating r \<and> rating r \<le> 5 \<and> 50 \<le> reviewCount r \<and> truthyOpt (hours r)
     \<and> specialties r \<noteq> [] \<and> dietaryOptions r \<noteq> [] \<and> ambiance r \<noteq> [] \<and> bestFor r \<noteq> []
     \<and> distance r = ''Unknown'' \<and> phone r = None \<and> website r = None
     \<and> estimatedWaitTime r = None"
proof -
  from assms(1) have n: "raw_description d = None" "raw_rating d = None"
    "raw_reviewCount d = None" "raw_phone d = None" "raw_website d = None"
    "raw_hours d = None" "raw_dietaryOptions d = None" "raw_ambiance d = None"
    "raw_bestFor d = None" "raw_estimatedWaitTime d = None" "raw_coordinates d = None"
    "raw_distance d = None"
    by (simp_all add: onlyRequiredFields_def)
  from assms(2) have u: "0 \<le> r_description rnd" "r_description rnd < 1"
    "0 \<le> r_rating rnd" "r_rating rnd < 1" "0 \<le> r_reviewCount rnd"
    "0 \<le> r_hours rnd" "r_hours rnd < 1" "0 \<le> r_dietary rnd"
    by (simp_all add: unitDraws_def)
  have 1: "description r = generateDescription k (r_description rnd)"
    by (simp add: r_def restaurantLiteral_def n truthyOpt_def)
  have 2: "rating r = generateFallbackRating (r_rating rnd)"
    by (simp add: r_def restaurantLiteral_def n truthyNumOpt_def)
  have 3: "reviewCount r = generateFallbackReviewCount (r_reviewCount rnd)"
    by (simp add: r_def restaurantLiteral_def n truthyNumOpt_def)
  have 4: "hours r = generateFallbackHours (r_hours rnd)"
    by (simp add: r_def restaurantLiteral_def n truthyOpt_def)
  have 5: "dietaryOptions r = generateDietaryOptions (r_dietary rnd)"
    by (simp add: r_def restaurantLiteral_def n)
  have 6: "ambiance r = generateAmbiance (priceOr3 d)"
    by (simp add: r_def restaurantLiteral_def n truthyOpt_def)
  have 7: "bestFor r = generateBestFor (priceOr3 d)"
    by (simp add: r_def restaurantLiteral_def n)
  have 8: "distance r = ''Unknown''"
    by (simp add: r_def restaurantLiteral_def n computedDistance_def truthyOpt_def)
  have 9: "phone r = None" "website r = None" "estimatedWaitTime r = None"
    "specialties r = specs" "priceLevel r = price"
    by (simp_all add: r_def restaurantLiteral_def n)
  have h: "truthyOpt (generateFallbackHours (r_hours rnd))"
    unfolding generateFallbackHours_def by (rule pick_truthy[OF u(6,7)]) simp_all
  show ?thesis
    unfolding 1 2 3 4 5 6 7 8 9
    using generateDescription_truthy[OF u(1,2) assms(3)]
      generateFallbackRating_range[OF u(3,4)] generateFallbackReviewCount_range[OF u(5)]
      h generateDietaryOptions_nonempty[OF u(8)] generateAmbiance_nonempty
      generateBestFor_nonempty assms(4,5,6)
    by simp
qed

text \<open>
  C2, as the code has it. A candidate that passes the parser's validation with only
  name, cuisine and address present, transformed with draws of \<open>Math.random()\<close> in
  [0,1), gives a restaurant whose description, price level (1 to 5), rating (3 to 5),
  review count (at least 50), hours, specialties, dietary options, ambiance and best-for
  list are synthesised and whose distance is the string \<open>Unknown\<close>; phone, website and
  waiting time are copied from the candidate and stay absent. The one exception is a
  cuisine that names a property \<open>cuisineMap\<close> inherits: it passes the validation and the
  transformation returns \<open>null\<close>.
\<close>

theorem synthesis_completeness:
  assumes "fst (parser_validateRestaurant env d location)"
    and "onlyRequiredFields d" and "unitDraws rnd"
  shows "(\<exists>c. raw_cuisine d = Some c \<and> normalizeCuisine c = Inherited
            \<and> transformToRestaurant env now rnd d index location q = Null)
    \<or> (\<exists>r. transformToRestaurant env now rnd d index location q = Produced r
          \<and> truthyOpt (description r) \<and> 1 \<le> priceLevel r \<and> priceLevel r \<le> 5
          \<and> 3 \<le> rating r \<and> rating r \<le> 5 \<and> 50 \<le> reviewCount r \<and> truthyOpt (hours r)
          \<and> specialties r \<noteq> [] \<and> dietaryOptions r \<noteq> [] \<and> ambiance r \<noteq> []
          \<and> bestFor r \<noteq> [] \<and> distance r = ''Unknown'' \<and> phone r = None
          \<and> website r = None \<and> estimatedWaitTime r = None)"
proof -
  from validated_required[OF assms(1)] obtain nm c addr where
    f: "raw_name d = Some nm" "raw_cuisine d = Some c" "raw_address d = Some addr"
    and nc: "normalizeCuisine c \<noteq> Undefined" by blast
  show ?thesis
  proof (cases "normalizeCuisine c")
    case Undefined
    with nc show ?thesis by simp
  next
    case Inherited
    then have "transformToRestaurant env now rnd d index location q = Null"
      by (simp add: transformToRestaurant_def f)
    with f(2) Inherited show ?thesis by blast
  next
    case (Own t)
    have k: "t \<notin> set objectPrototypeKeys"
      using known_cuisine_not_inherited[OF normalizeCuisine_Own[OF Own]] by simp
    from generateSpecialties_nonempty[OF k] obtain specs where
      s: "generateSpecialties t = Some specs" "specs \<noteq> []" by blast
    from inferPriceLevel_range[OF k, of nm] obtain price where
      p: "inferPriceLevel nm t = Some price" "1 \<le> price" "price \<le> 5" by blast
    have n: "raw_specialties d = None" "raw_priceLevel d = None"
      using assms(2) by (simp_all add: onlyRequiredFields_def)
    have "transformToRestaurant env now rnd d index location q
          = Produced (restaurantLiteral env now rnd d index location q nm addr t specs price)"
      by (simp add: transformToRestaurant_def transformWith_def f Own n s p truthyNumOpt_def)
    then show ?thesis
      using literal_fields[OF assms(2,3) k s(2) p(2,3) refl, of env now index location q nm addr]
      by blast
  qed
qed

theorem synthesis_completeness_witness:
  "fst (parser_validateRestaurant example_env example_raw example_location)
   \<and> onlyRequiredFields example_raw \<and> unitDraws (example_draws 0)
   \<and> (\<exists>r. transformToRestaurant example_env (example_clock 0) (example_draws 0) example_raw 0
             example_location ''italian'' = Produced r
          \<and> truthyOpt (description r) \<and> truthyOpt (hours r) \<and> specialties r \<noteq> []
          \<and> distance r = ''Unknown'' \<and> phone r = None)"
proof -
  have a: "fst (parser_validateRestaurant example_env example_raw example_location)"
    by code_simp
  have b: "onlyRequiredFields example_raw" by code_simp
  have c: "unitDraws (example_draws 0)" by code_simp
  have d: "transformToRestaurant example_env (example_clock 0) (example_draws 0) example_raw 0
             example_location ''italian'' \<noteq> Null"
    by code_simp
  from synthesis_completeness[OF a b c, of "example_clock 0" 0 "''italian''"] d
  have "\<exists>r. transformToRestaurant example_env (example_clock 0) (example_draws 0) example_raw 0
             example_location ''italian'' = Produced r
          \<and> truthyOpt (description r) \<and> truthyOpt (hours r) \<and> specialties r \<noteq> []
          \<and> distance r = ''Unknown'' \<and> phone r = None"
    by blast
  with a b c show ?thesis by blast
qed

text \<open>
  As C2 is stated it fails: the restaurant made from a candidate with only the required
  fields has no phone, no website and no waiting time.
\<close>

theorem synthesis_completeness_counterexample:
  "fst (parser_validateRestaurant example_env example_raw example_location)
   \<and> onlyRequiredFields example_raw
   \<and> transformToRestaurant example_env (example_clock 0) (example_draws 0) example_raw 0
       example_location ''italian''
     = Produced (restaurantLiteral example_env (example_clock 0) (example_draws 0) example_raw 0
         example_location ''italian'' ''Luigi's Trattoria'' ''12 Main St, San Francisco''
         ''Italian'' [''Pasta'', ''Pizza'', ''Risotto''] 3)
   \<and> phone (restaurantLiteral example_env (example_clock 0) (example_draws 0) example_raw 0
         example_location ''italian'' ''Luigi's Trattoria'' ''12 Main St, San Francisco''
         ''Italian'' [''Pasta'', ''Pizza'', ''Risotto''] 3) = None
   \<and> website (restaurantLiteral example_env (example_clock 0) (example_draws 0) example_raw 0
         example_location ''italian'' ''Luigi's Trattoria'' ''12 Main St, San Francisco''
         ''Italian'' [''Pasta'', ''Pizza'', ''Risotto''] 3) = None
   \<and> estimatedWaitTime (restaurantLiteral example_env (example_clock 0) (example_draws 0)
         example_raw 0 example_location ''italian'' ''Luigi's Trattoria''
         ''12 Main St, San Francisco'' ''Italian'' [''Pasta'', ''Pizza'', ''Risotto''] 3) = None"
  by code_simp












section \<open>Properties of the search cache\<close>


lemma order_ok_delete:
  "order_ok al ao \<Longrightarrow> order_ok (AList.delete k al) (removeFromAccessOrder k ao)"
  by (simp add: order_ok_def removeFromAccessOrder_def delete_keys distinct_removeAll)

lemma order_ok_update:
  "order_ok al ao \<Longrightarrow> order_ok (AList.update k e al) (updateAccessOrder k ao)"
  by (auto simp add: order_ok_def removeFromAccessOrder_def updateAccessOrder_def update_keys)

lemma order_ok_shift:
  "order_ok al (v # rest) \<Longrightarrow> order_ok (AList.delete v al) rest"
  using order_ok_delete[of al "v # rest" v] by (simp add: removeFromAccessOrder_def)


lemma inv_evict: "cache_inv c \<Longrightarrow> cache_inv (evictLRU c)"
  by (cases "accessOrder c") (simp_all add: cache_inv_def evictLRU_def order_ok_shift)

lemma inv_get: "cache_inv c \<Longrightarrow> cache_inv (snd (cache_get now now' k c))"
  by (simp add: cache_inv_def cache_get_def Let_def order_ok_delete order_ok_update
      split: option.splits)

lemma inv_set: "cache_inv c \<Longrightarrow> cache_inv (cache_set now k d m c)"
  using inv_evict[of c]
  by (simp add: cache_inv_def cache_set_def Let_def order_ok_update)

lemma inv_has: "cache_inv c \<Longrightarrow> cache_inv (snd (cache_has now k c))"
  by (simp add: cache_inv_def cache_has_def order_ok_delete split: option.splits)

lemma inv_delete: "cache_inv c \<Longrightarrow> cache_inv (snd (cache_delete k c))"
  by (simp add: cache_inv_def cache_delete_def order_ok_delete)

lemma inv_apply: "cache_inv c \<Longrightarrow> cache_inv (apply_op x c)"
  by (cases x) (simp_all add: inv_get inv_set inv_has inv_delete)




























lemma maxSize_apply [simp]: "maxSize (apply_op x c) = maxSize c"
  by (cases x)
     (simp_all add: cache_get_def cache_set_def cache_has_def cache_delete_def evictLRU_def
        Let_def split: option.splits list.splits)

lemma maxSize_run [simp]: "maxSize (run_ops ops c) = maxSize c"
  by (induction ops arbitrary: c) simp_all







lemma ttl_evict [simp]: "ttl (evictLRU c) = ttl c"
  by (simp add: evictLRU_def split: list.splits)








section \<open>Properties of the cache key\<close>

lemma isSpace_toLowerChar [simp]: "isSpace (toLowerChar c) = isSpace c"
proof (cases "65 \<le> (of_char c :: nat) \<and> (of_char c :: nat) \<le> 90")
  case True
  then have "(of_char (char_of (of_char c + 32 :: nat) :: char) :: nat) = of_char c + 32"
    by (simp add: of_char_of)
  with True show ?thesis
    by (auto simp: isSpace_def toLowerChar_def Let_def)
next
  case False
  then show ?thesis by (auto simp: toLowerChar_def Let_def)
qed









end
